theory Spec2Isabelle
  imports Main
begin

section \<open>JavaScript values\<close>

text \<open>
  The handlers of the two server files (\<^verbatim>\<open>src/server.js\<close>, session based, and
  \<^verbatim>\<open>src/unnamed/part_006\<close>, bearer-token based with an optional FGA client) and the
  browser code of \<^verbatim>\<open>src/unnamed/part_005\<close> pass around a handful of JavaScript values.
  Only the shapes the code can produce are kept: \<open>undefined\<close>, booleans, functions and
  plain objects (the last two arise from the prototype chain of an object literal).
\<close>

datatype jsval = JUndefined | JBool bool | JFunction | JObject

text \<open>ToBoolean, as used by \<^verbatim>\<open>||\<close>, \<^verbatim>\<open>&&\<close> and \<^verbatim>\<open>if\<close>.\<close>

fun truthy :: "jsval \<Rightarrow> bool" where
  "truthy JUndefined = False"
| "truthy (JBool b) = b"
| "truthy JFunction = True"
| "truthy JObject = True"

text \<open>\<^verbatim>\<open>a || b\<close> yields \<open>a\<close> when it is truthy and \<open>b\<close> otherwise.\<close>

definition js_or :: "jsval \<Rightarrow> jsval \<Rightarrow> jsval" where
  "js_or a b = (if truthy a then a else b)"

text \<open>
  The property names every object literal inherits from \<^verbatim>\<open>Object.prototype\<close>, with the
  value a read yields: a function, except for the accessor \<^verbatim>\<open>__proto__\<close>, which yields
  the prototype object.
\<close>

definition object_prototype :: "(string \<times> jsval) list" where
  "object_prototype =
     [(''constructor'', JFunction),
      (''__defineGetter__'', JFunction),
      (''__defineSetter__'', JFunction),
      (''hasOwnProperty'', JFunction),
      (''__lookupGetter__'', JFunction),
      (''__lookupSetter__'', JFunction),
      (''isPrototypeOf'', JFunction),
      (''propertyIsEnumerable'', JFunction),
      (''toString'', JFunction),
      (''valueOf'', JFunction),
      (''__proto__'', JObject),
      (''toLocaleString'', JFunction)]"

text \<open>
  \<^verbatim>\<open>obj[key]\<close> on an object literal with the given own properties: the own property if
  there is one, else the inherited one, else \<open>undefined\<close>.
\<close>

definition js_get :: "(string \<times> jsval) list \<Rightarrow> string \<Rightarrow> jsval" where
  "js_get own key =
     (case map_of own key of
        Some v \<Rightarrow> v
      | None \<Rightarrow> (case map_of object_prototype key of Some v \<Rightarrow> v | None \<Rightarrow> JUndefined))"

text \<open>
  \<^verbatim>\<open>JSON.stringify\<close> followed by \<^verbatim>\<open>JSON.parse\<close>: what the browser reads back for a
  property the server put into \<^verbatim>\<open>res.json\<close>. A function-valued property is dropped,
  so the reader sees \<open>undefined\<close>.
\<close>

fun wire :: "jsval \<Rightarrow> jsval" where
  "wire JFunction = JUndefined"
| "wire v = v"

section \<open>The mock permission table of the check handler\<close>

text \<open>
  \<^verbatim>\<open>part_006\<close>, lines 256-262: the object literal \<^verbatim>\<open>mockPermissions\<close> and the key
  \<^verbatim>\<open>`${resource}:${relation}`\<close>. The body fields are modelled as the strings the template
  literal turns them into.
\<close>

definition mockPermissions :: "(string \<times> jsval) list" where
  "mockPermissions =
     [(''document:project-plan:viewer'', JBool True),
      (''document:requirements:viewer'', JBool True),
      (''document:requirements:editor'', JBool True),
      (''document:architecture:viewer'', JBool True)]"

definition permission_key :: "string \<Rightarrow> string \<Rightarrow> string" where
  "permission_key res rel = res @ '':'' @ rel"

text \<open>The value sent as \<^verbatim>\<open>allowed\<close>: \<^verbatim>\<open>mockPermissions[key] || false\<close>.\<close>

definition mock_allowed :: "string \<Rightarrow> string \<Rightarrow> jsval" where
  "mock_allowed res rel =
     js_or (js_get mockPermissions (permission_key res rel)) (JBool False)"

section \<open>Requests, responses and the external services\<close>

text \<open>
  \<^verbatim>\<open>req.oidc.user\<close> (in \<^verbatim>\<open>part_006\<close>: \<^verbatim>\<open>req.auth\<close>): the fields the handlers read.
\<close>

record user =
  sub :: string
  name :: string
  email :: string
  picture :: string

text \<open>
  \<^verbatim>\<open>req.body\<close>. Each handler destructures the fields it needs; a field the caller did
  not send is \<open>undefined\<close> in the code and is represented here by the text the template
  literals print for it.
\<close>

record body =
  resource :: string
  relation :: string
  targetUser :: string
  action :: string
  justification :: string

definition check_body :: "string \<Rightarrow> string \<Rightarrow> body" where
  "check_body r rel =
     \<lparr>resource = r, relation = rel, targetUser = ''undefined'',
      action = ''undefined'', justification = ''undefined''\<rparr>"

record app_metadata =
  loyalty_tier :: "string option"
  employee_id :: "string option"
  department :: "string option"
  access_level :: "string option"
  is_data_synced :: "bool option"

definition no_metadata :: app_metadata where
  "no_metadata =
     \<lparr>loyalty_tier = None, employee_id = None, department = None,
      access_level = None, is_data_synced = None\<rparr>"

text \<open>
  The object built by the approval handler (\<^verbatim>\<open>server.js\<close>, lines 240-249). Its fields
  carry the prefix \<open>rq_\<close> because \<open>action\<close>, \<open>resource\<close> and \<open>justification\<close> already
  name the fields of the request body. \<^verbatim>\<open>created_at\<close> is the clock reading in
  milliseconds instead of its ISO rendering.
\<close>

record approval_request =
  rq_id :: string
  rq_user_id :: string
  rq_user_name :: string
  rq_action :: string
  rq_resource :: string
  rq_justification :: string
  rq_status :: string
  rq_created_at :: nat

text \<open>
  What the server sends: the argument of \<^verbatim>\<open>res.json\<close>, together with the HTTP status
  for the error replies. \<open>Internal_error_json message\<close> is the reply of the error
  middleware: status 500 and \<^verbatim>\<open>{error: 'Internal server error', message}\<close>.
\<close>

datatype response =
    Profile_json user app_metadata
  | Token_json string nat string
  | Check_json jsval string string
  | Grant_json bool string
  | Approval_json string string string
  | Error_json nat string
  | Internal_error_json string

text \<open>
  Everything an awaited call can throw into a handler's \<^verbatim>\<open>catch\<close>: the SDK promise
  rejecting for a transport failure or for an error reply of the service, and the
  \<open>TypeError\<close> of calling a method on \<open>null\<close>. The handlers do not tell them apart.
  \<open>BodyParserError\<close> is the error \<^verbatim>\<open>express.json()\<close> raises for a body it cannot parse
  (malformed JSON, or more than its size limit); it goes to the error middleware.
\<close>

datatype thrown = RemoteUnavailable | RemoteError | TypeError | BodyParserError

text \<open>
  The external collaborators, as the handlers see them: \<^verbatim>\<open>fgaClient.check\<close>,
  \<^verbatim>\<open>fgaClient.write\<close> and \<^verbatim>\<open>management.getUser\<close>. They are not code of this repository,
  so each is a parameter: a function of the state \<open>'w\<close> of the outside world that
  returns what the promise settles to and the world after the call. A relationship
  tuple is \<open>(user, relation, object)\<close>.
\<close>

record 'w services =
  fga_check :: "string \<times> string \<times> string \<Rightarrow> 'w \<Rightarrow> (thrown + bool) \<times> 'w"
  fga_write :: "string \<times> string \<times> string \<Rightarrow> 'w \<Rightarrow> (thrown + unit) \<times> 'w"
  management_getUser :: "string \<Rightarrow> 'w \<Rightarrow> (thrown + app_metadata option) \<times> 'w"

text \<open>
  The readings of \<^verbatim>\<open>Date\<close> and \<^verbatim>\<open>Math.random\<close> a handler takes: the clock in
  milliseconds and the two base-36 fragments of \<^verbatim>\<open>generateRequestId\<close> and
  \<^verbatim>\<open>generateToken\<close>.
\<close>

record env =
  now :: nat
  random_id :: string
  random_token :: string

datatype console_line =
    Console_log string
  | Console_log_request string approval_request
  | Console_error string thrown

text \<open>
  The state a request can touch: the outside world behind the clients, the console, and
  the queue of \<^verbatim>\<open>setTimeout\<close> callbacks. The only callback the server registers is the
  closure of the approval handler, which holds the \<^verbatim>\<open>approvalRequest\<close> object; an entry
  is the time it is due and that object. The server has no other variable that
  outlives a request: no permission cache and no store of approval requests.
\<close>

record 'w server_state =
  world :: 'w
  console :: "console_line list"
  timers :: "(nat \<times> approval_request) list"

definition console_add :: "console_line \<Rightarrow> 'w server_state \<Rightarrow> 'w server_state" where
  "console_add l st = st\<lparr>console := console st @ [l]\<rparr>"

section \<open>The handlers\<close>

text \<open>
  \<^verbatim>\<open>POST /api/fga/check-access\<close> (\<^verbatim>\<open>part_006\<close>, lines 249-286). \<^verbatim>\<open>fgaClient\<close> is \<open>null\<close>
  when the FGA environment variables are not set. \<^verbatim>\<open>server.js\<close> (lines 175-195) builds
  its client unconditionally and has no \<open>null\<close> branch: its handler is the \<open>Some\<close> case.
\<close>

definition check_access ::
  "'w services option \<Rightarrow> user \<Rightarrow> body \<Rightarrow> 'w server_state \<Rightarrow> response \<times> 'w server_state" where
  "check_access fgaClient u b st =
     (case fgaClient of
        None \<Rightarrow>
          (Check_json (mock_allowed (resource b) (relation b)) (resource b) (relation b), st)
      | Some c \<Rightarrow>
          (case fga_check c (''user:'' @ sub u, relation b, resource b) (world st) of
             (Inr allowed, w) \<Rightarrow>
               (Check_json (JBool allowed) (resource b) (relation b), st\<lparr>world := w\<rparr>)
           | (Inl e, w) \<Rightarrow>
               (Error_json 500 ''Failed to check access'',
                console_add (Console_error ''Error checking FGA access:'' e) (st\<lparr>world := w\<rparr>))))"

text \<open>
  \<^verbatim>\<open>POST /api/fga/grant-access\<close> (\<^verbatim>\<open>server.js\<close>, lines 198-231; \<^verbatim>\<open>part_006\<close>, lines
  289-322). There is no \<open>null\<close> test here: without a client the first call throws a
  \<open>TypeError\<close> into the \<^verbatim>\<open>catch\<close>.
\<close>

definition grant_access ::
  "'w services option \<Rightarrow> user \<Rightarrow> body \<Rightarrow> 'w server_state \<Rightarrow> response \<times> 'w server_state" where
  "grant_access fgaClient u b st =
     (case fgaClient of
        None \<Rightarrow>
          (Error_json 500 ''Failed to grant access'',
           console_add (Console_error ''Error granting FGA access:'' TypeError) st)
      | Some c \<Rightarrow>
          (case fga_check c (''user:'' @ sub u, ''owner'', resource b) (world st) of
             (Inl e, w) \<Rightarrow>
               (Error_json 500 ''Failed to grant access'',
                console_add (Console_error ''Error granting FGA access:'' e) (st\<lparr>world := w\<rparr>))
           | (Inr canGrant, w) \<Rightarrow>
               if \<not> canGrant
               then (Error_json 403 ''Insufficient permissions to grant access'', st\<lparr>world := w\<rparr>)
               else
                 (case fga_write c (''user:'' @ targetUser b, relation b, resource b) w of
                    (Inl e, w') \<Rightarrow>
                      (Error_json 500 ''Failed to grant access'',
                       console_add (Console_error ''Error granting FGA access:'' e)
                         (st\<lparr>world := w'\<rparr>))
                  | (Inr _, w') \<Rightarrow>
                      (Grant_json True
                         (''Access granted: '' @ targetUser b @ '' can now '' @ relation b
                            @ '' '' @ resource b),
                       st\<lparr>world := w'\<rparr>))))"

definition generateRequestId :: "env \<Rightarrow> string" where
  "generateRequestId e = ''req_'' @ random_id e"

definition generateToken :: "env \<Rightarrow> string" where
  "generateToken e = random_token e"

text \<open>\<^verbatim>\<open>simulateApprovalDecision\<close> (\<^verbatim>\<open>server.js\<close>, lines 290-296): one console line.\<close>

definition simulateApprovalDecision :: "string \<Rightarrow> 'w server_state \<Rightarrow> 'w server_state" where
  "simulateApprovalDecision requestId st =
     console_add
       (Console_log (''Approval request '' @ requestId
          @ '' has been auto-approved for demo purposes'')) st"

text \<open>
  \<^verbatim>\<open>POST /api/async-approval\<close> (\<^verbatim>\<open>server.js\<close>, lines 234-268). Nothing in the \<^verbatim>\<open>try\<close>
  block throws for a request that has a user and a body, so its \<^verbatim>\<open>catch\<close> has no
  branch here.
\<close>

definition async_approval ::
  "env \<Rightarrow> user \<Rightarrow> body \<Rightarrow> 'w server_state \<Rightarrow> response \<times> 'w server_state" where
  "async_approval e u b st =
     (let approvalRequest =
            \<lparr>rq_id = generateRequestId e, rq_user_id = sub u, rq_user_name = name u,
             rq_action = action b, rq_resource = resource b,
             rq_justification = justification b, rq_status = ''pending'',
             rq_created_at = now e\<rparr>
      in (Approval_json (rq_id approvalRequest) ''pending''
            ''Approval request submitted. You will be notified when approved.'',
          (console_add (Console_log_request ''Approval request created:'' approvalRequest) st)
            \<lparr>timers := timers st @ [(now e + 5000, approvalRequest)]\<rparr>))"

text \<open>
  The event loop running the callbacks that are due at time \<open>t\<close>, in the order they were
  registered; each calls \<^verbatim>\<open>simulateApprovalDecision(approvalRequest.id)\<close> and leaves the
  queue.
\<close>

fun run_due :: "nat \<Rightarrow> (nat \<times> approval_request) list \<Rightarrow> 'w server_state \<Rightarrow> 'w server_state" where
  "run_due t [] st = st"
| "run_due t ((due, rq) # rest) st =
     (if due \<le> t then run_due t rest (simulateApprovalDecision (rq_id rq) st)
      else run_due t rest st)"

definition timers_fire :: "nat \<Rightarrow> 'w server_state \<Rightarrow> 'w server_state" where
  "timers_fire t st =
     (run_due t (timers st) st)\<lparr>timers := filter (\<lambda>(due, rq). \<not> due \<le> t) (timers st)\<rparr>"

text \<open>
  \<^verbatim>\<open>simulateTokenVaultExchange\<close> and the two token routes (\<^verbatim>\<open>server.js\<close>, lines 136-170,
  272-280); the scopes are those of \<^verbatim>\<open>TOKEN_VAULT_CONFIG\<close>.
\<close>

definition simulateTokenVaultExchange :: "env \<Rightarrow> string \<Rightarrow> string \<Rightarrow> string \<times> nat \<times> string" where
  "simulateTokenVaultExchange e userId service =
     (''tvault_'' @ service @ ''_'' @ generateToken e, 3600, ''Bearer'')"

definition tokens ::
  "env \<Rightarrow> string \<Rightarrow> string \<Rightarrow> user \<Rightarrow> 'w server_state \<Rightarrow> response \<times> 'w server_state" where
  "tokens e service scope u st =
     (case simulateTokenVaultExchange e (sub u) service of
        (access_token, expires_in, token_type) \<Rightarrow> (Token_json access_token expires_in scope, st))"

text \<open>\<^verbatim>\<open>GET /api/profile\<close> (\<^verbatim>\<open>server.js\<close>, lines 106-131).\<close>

definition profile :: "'w services \<Rightarrow> user \<Rightarrow> 'w server_state \<Rightarrow> response \<times> 'w server_state" where
  "profile svc u st =
     (case management_getUser svc (sub u) (world st) of
        (Inr md, w) \<Rightarrow>
          (Profile_json u (case md of None \<Rightarrow> no_metadata | Some m \<Rightarrow> m), st\<lparr>world := w\<rparr>)
      | (Inl e, w) \<Rightarrow>
          (Error_json 500 ''Failed to fetch user profile'',
           console_add (Console_error ''Error fetching user profile:'' e) (st\<lparr>world := w\<rparr>)))"

section \<open>Routing in \<^verbatim>\<open>server.js\<close>\<close>

datatype endpoint =
    Api_profile
  | Api_tokens_google_calendar
  | Api_tokens_slack
  | Api_fga_check_access
  | Api_fga_grant_access
  | Api_async_approval

text \<open>
  A request: the route it is for, the session user (\<^verbatim>\<open>req.oidc.isAuthenticated()\<close> holds
  exactly when there is one) and the parsed body.
\<close>

record request =
  endpoint :: endpoint
  oidc_user :: "user option"
  req_body :: body

text \<open>\<^verbatim>\<open>requireAuth\<close> (\<^verbatim>\<open>server.js\<close>, lines 85-90).\<close>

definition requireAuth ::
  "request \<Rightarrow> (user \<Rightarrow> 'w server_state \<Rightarrow> response \<times> 'w server_state)
     \<Rightarrow> 'w server_state \<Rightarrow> response \<times> 'w server_state" where
  "requireAuth req next st =
     (case oidc_user req of
        None \<Rightarrow> (Error_json 401 ''Authentication required'', st)
      | Some u \<Rightarrow> next u st)"

text \<open>The six \<^verbatim>\<open>/api\<close> routes of \<^verbatim>\<open>server.js\<close>, each registered behind \<^verbatim>\<open>requireAuth\<close>.\<close>

fun handler ::
  "'w services \<Rightarrow> env \<Rightarrow> endpoint \<Rightarrow> body \<Rightarrow> user \<Rightarrow> 'w server_state
     \<Rightarrow> response \<times> 'w server_state" where
  "handler svc e Api_profile b = profile svc"
| "handler svc e Api_tokens_google_calendar b =
     tokens e ''google-calendar'' ''https://www.googleapis.com/auth/calendar''"
| "handler svc e Api_tokens_slack b = tokens e ''slack'' ''chat:write,channels:read''"
| "handler svc e Api_fga_check_access b = (\<lambda>u. check_access (Some svc) u b)"
| "handler svc e Api_fga_grant_access b = (\<lambda>u. grant_access (Some svc) u b)"
| "handler svc e Api_async_approval b = (\<lambda>u. async_approval e u b)"

definition route ::
  "'w services \<Rightarrow> env \<Rightarrow> request \<Rightarrow> 'w server_state \<Rightarrow> response \<times> 'w server_state" where
  "route svc e req st = requireAuth req (handler svc e (endpoint req) (req_body req)) st"

text \<open>
  \<open>route\<close> is what happens to a request once its body is parsed. Before that,
  \<^verbatim>\<open>app.use(express.json())\<close> (\<^verbatim>\<open>server.js\<close>, line 81) reads the body: what arrives is
  a body that parses (an absent one parses to the empty object) or one that does not,
  with the parser's message.
\<close>

datatype raw_body = Parsed body | Unparseable string

record http_request =
  http_endpoint :: endpoint
  http_session :: "user option"
  http_body :: raw_body

text \<open>
  The error-handling middleware (\<^verbatim>\<open>server.js\<close>, lines 299-305). \<open>development\<close> stands for
  \<^verbatim>\<open>process.env.NODE_ENV === 'development'\<close>.
\<close>

definition error_middleware ::
  "bool \<Rightarrow> thrown \<Rightarrow> string \<Rightarrow> 'w server_state \<Rightarrow> response \<times> 'w server_state" where
  "error_middleware development error message st =
     (Internal_error_json (if development then message else ''Something went wrong''),
      console_add (Console_error ''Application error:'' error) st)"

text \<open>
  The application as a whole: the body parser runs first and passes a failure straight
  to the error middleware, so that neither \<^verbatim>\<open>requireAuth\<close> nor a handler sees the request.
\<close>

definition app ::
  "'w services \<Rightarrow> bool \<Rightarrow> env \<Rightarrow> http_request \<Rightarrow> 'w server_state
     \<Rightarrow> response \<times> 'w server_state" where
  "app svc development e hreq st =
     (case http_body hreq of
        Unparseable message \<Rightarrow> error_middleware development BodyParserError message st
      | Parsed b \<Rightarrow>
          route svc e
            \<lparr>endpoint = http_endpoint hreq, oidc_user = http_session hreq, req_body = b\<rparr> st)"

section \<open>The server over time\<close>

text \<open>
  What can happen to the server: a request with a parsed body arrives (with the clock
  and random readings its handler takes), a request arrives whose body does not parse,
  or the clock reaches \<open>t\<close> and the callbacks due by then run.
\<close>

datatype event = Http env request | Clock nat | Http_unparseable bool string

fun step :: "'w services \<Rightarrow> event \<Rightarrow> 'w server_state \<Rightarrow> 'w server_state" where
  "step svc (Http e req) st = snd (route svc e req st)"
| "step svc (Clock t) st = timers_fire t st"
| "step svc (Http_unparseable development message) st =
     snd (error_middleware development BodyParserError message st)"

fun run :: "'w services \<Rightarrow> event list \<Rightarrow> 'w server_state \<Rightarrow> 'w server_state" where
  "run svc [] st = st"
| "run svc (ev # evs) st = run svc evs (step svc ev st)"

definition initial_state :: "'w \<Rightarrow> 'w server_state" where
  "initial_state w = \<lparr>world = w, console = [], timers = []\<rparr>"

section \<open>The browser: \<^verbatim>\<open>appState.fgaPermissions\<close>\<close>

text \<open>
  The \<^verbatim>\<open>Map\<close> of \<^verbatim>\<open>part_005\<close>, line 22. The only statement of the repository that writes
  to it is the \<^verbatim>\<open>set(key, true)\<close> of \<^verbatim>\<open>loadUserPermissions\<close>; nothing deletes from it or
  clears it, and no entry carries a time.
\<close>

type_synonym cache = "string \<rightharpoonup> jsval"

text \<open>
  What \<^verbatim>\<open>await fetch(...)\<close> followed by \<^verbatim>\<open>await response.json()\<close> gives the loop: the
  promise rejects, or there is a response with its \<^verbatim>\<open>ok\<close> flag and, if the body parses
  to an object, the value of its \<^verbatim>\<open>allowed\<close> property (\<open>None\<close>: reading it throws).
\<close>

datatype fetch_outcome = Fetch_rejected | Fetch_response bool "jsval option"

definition resources :: "string list" where
  "resources =
     [''document:project-plan'', ''document:requirements'', ''document:architecture'',
      ''project:alpha-release'', ''calendar:team-calendar'']"

definition relations :: "string list" where
  "relations = [''viewer'', ''editor'', ''owner'']"

text \<open>
  The two nested \<^verbatim>\<open>for\<close> loops of \<^verbatim>\<open>loadUserPermissions\<close> (\<^verbatim>\<open>part_005\<close>, lines 102-142)
  over the pairs still to visit. \<open>'n\<close> is whatever the fetch acts on. An exception
  leaves both loops for the \<^verbatim>\<open>catch\<close>, which keeps the map as it is.
\<close>

fun load_loop ::
  "(body \<Rightarrow> 'n \<Rightarrow> fetch_outcome \<times> 'n) \<Rightarrow> (string \<times> string) list \<Rightarrow> cache \<Rightarrow> 'n \<Rightarrow> cache \<times> 'n" where
  "load_loop fetch [] c n = (c, n)"
| "load_loop fetch ((res, rel) # rest) c n =
     (case fetch (check_body res rel) n of
        (Fetch_rejected, n') \<Rightarrow> (c, n')
      | (Fetch_response ok data, n') \<Rightarrow>
          if ok then
            (case data of
               None \<Rightarrow> (c, n')
             | Some allowed \<Rightarrow>
                 if truthy allowed
                 then load_loop fetch rest
                        (c(permission_key res rel \<mapsto> JBool True)) n'
                 else load_loop fetch rest c n')
          else load_loop fetch rest c n')"

definition loadUserPermissions ::
  "(body \<Rightarrow> 'n \<Rightarrow> fetch_outcome \<times> 'n) \<Rightarrow> cache \<Rightarrow> 'n \<Rightarrow> cache \<times> 'n" where
  "loadUserPermissions fetch c n = load_loop fetch (List.product resources relations) c n"

text \<open>
  \<^verbatim>\<open>hasPermission\<close> (\<^verbatim>\<open>part_005\<close>, lines 172-175):
  \<^verbatim>\<open>fgaPermissions.has(key) && fgaPermissions.get(key)\<close>.
\<close>

definition hasPermission :: "cache \<Rightarrow> string \<Rightarrow> string \<Rightarrow> jsval" where
  "hasPermission c res rel =
     (case c (permission_key res rel) of
        None \<Rightarrow> JBool False
      | Some v \<Rightarrow> v)"

section \<open>Browser and server together\<close>

text \<open>
  What the browser reads from a reply: \<^verbatim>\<open>response.ok\<close> is a status in the 200s, and
  \<^verbatim>\<open>data.allowed\<close> is the property as it comes back over the wire.
\<close>

fun as_fetch :: "response \<Rightarrow> fetch_outcome" where
  "as_fetch (Check_json allowed r rel) = Fetch_response True (Some (wire allowed))"
| "as_fetch (Error_json status msg) =
     Fetch_response (200 \<le> status \<and> status < 300) (Some JUndefined)"
| "as_fetch (Internal_error_json message) = Fetch_response False (Some JUndefined)"
| "as_fetch reply = Fetch_response True (Some JUndefined)"

text \<open>The \<^verbatim>\<open>fetch('/api/fga/check-access', ...)\<close> of the loop, served by \<^verbatim>\<open>server.js\<close>.\<close>

definition server_fetch ::
  "'w services \<Rightarrow> env \<Rightarrow> user option \<Rightarrow> body \<Rightarrow> 'w server_state
     \<Rightarrow> fetch_outcome \<times> 'w server_state" where
  "server_fetch svc e session b st =
     (case route svc e \<lparr>endpoint = Api_fga_check_access, oidc_user = session, req_body = b\<rparr> st of
        (reply, st') \<Rightarrow> (as_fetch reply, st'))"

text \<open>
  One browser and the server. A request handled by the server changes the server only:
  no handler has a way to reach the map in the browser.
\<close>

record 'w system =
  fgaPermissions :: cache
  server :: "'w server_state"

definition post :: "'w services \<Rightarrow> env \<Rightarrow> request \<Rightarrow> 'w system \<Rightarrow> response \<times> 'w system" where
  "post svc e req sys =
     (case route svc e req (server sys) of (reply, st') \<Rightarrow> (reply, sys\<lparr>server := st'\<rparr>))"

text \<open>
  The page staying open while the server goes through any events: requests of any
  client, clock readings however late.
\<close>

definition elapse :: "'w services \<Rightarrow> event list \<Rightarrow> 'w system \<Rightarrow> 'w system" where
  "elapse svc evs sys = sys\<lparr>server := run svc evs (server sys)\<rparr>"

definition page_load :: "'w services \<Rightarrow> env \<Rightarrow> user option \<Rightarrow> 'w system \<Rightarrow> 'w system" where
  "page_load svc e session sys =
     (case loadUserPermissions (server_fetch svc e session) (fgaPermissions sys) (server sys) of
        (c, st') \<Rightarrow> \<lparr>fgaPermissions = c, server = st'\<rparr>)"

section \<open>A stand-in for the authorization service\<close>

text \<open>
  For running the handlers on concrete inputs: a service that holds a list of tuples,
  answers a check by membership, can be switched unreachable, and records every call
  it receives.
\<close>

datatype fga_call =
    Check_call "string \<times> string \<times> string"
  | Write_call "string \<times> string \<times> string"

record fga_store =
  tuples :: "(string \<times> string \<times> string) list"
  reachable :: bool
  calls :: "fga_call list"

definition store_services :: "fga_store services" where
  "store_services =
     \<lparr>fga_check = (\<lambda>t w.
        (if reachable w then Inr (t \<in> set (tuples w)) else Inl RemoteUnavailable,
         w\<lparr>calls := calls w @ [Check_call t]\<rparr>)),
      fga_write = (\<lambda>t w.
        if reachable w
        then (Inr (), w\<lparr>tuples := t # tuples w, calls := calls w @ [Write_call t]\<rparr>)
        else (Inl RemoteUnavailable, w\<lparr>calls := calls w @ [Write_call t]\<rparr>)),
      management_getUser = (\<lambda>userId w. (Inr None, w))\<rparr>"

definition alice :: user where
  "alice = \<lparr>sub = ''alice'', name = ''Alice'', email = ''alice@example.com'', picture = ''a.png''\<rparr>"

definition plan_store :: fga_store where
  "plan_store =
     \<lparr>tuples = [(''user:alice'', ''owner'', ''document:project-plan''),
                (''user:alice'', ''viewer'', ''document:project-plan'')],
      reachable = True, calls = []\<rparr>"

definition env0 :: env where
  "env0 = \<lparr>now = 0, random_id = ''k3x9q2m1z'', random_token = ''t0ken''\<rparr>"

definition bob :: user where
  "bob = \<lparr>sub = ''bob'', name = ''Bob'', email = ''bob@example.com'', picture = ''b.png''\<rparr>"

definition grant_body :: "string \<Rightarrow> string \<Rightarrow> string \<Rightarrow> body" where
  "grant_body r rel target =
     \<lparr>resource = r, relation = rel, targetUser = target,
      action = ''undefined'', justification = ''undefined''\<rparr>"

definition approval_body :: "string \<Rightarrow> string \<Rightarrow> string \<Rightarrow> body" where
  "approval_body a r j =
     \<lparr>resource = r, relation = ''undefined'', targetUser = ''undefined'',
      action = a, justification = j\<rparr>"

section \<open>Notions used in the statements\<close>

text \<open>The four keys of \<open>mockPermissions\<close>, read as a resource and a relation name.\<close>

definition listed_pairs :: "(string \<times> string) list" where
  "listed_pairs =
     [(''document:project-plan'', ''viewer''), (''document:requirements'', ''viewer''),
      (''document:requirements'', ''editor''), (''document:architecture'', ''viewer'')]"




text \<open>
  Every request object the server still holds (in a pending callback) has the status it
  was built with.
\<close>

definition held_pending :: "'w server_state \<Rightarrow> bool" where
  "held_pending st = list_all (\<lambda>(due, rq). rq_status rq = ''pending'') (timers st)"

section \<open>Concrete runs\<close>

definition grant_request :: request where
  "grant_request =
     \<lparr>endpoint = Api_fga_grant_access, oidc_user = Some alice,
      req_body = grant_body ''document:project-plan'' ''editor'' ''alice''\<rparr>"

definition approval_request0 :: request where
  "approval_request0 =
     \<lparr>endpoint = Api_async_approval, oidc_user = Some alice,
      req_body = approval_body ''access_document'' ''document:sensitive'' ''review''\<rparr>"

definition env1 :: env where
  "env1 = \<lparr>now = 100, random_id = ''p7w2c5d8r'', random_token = ''t1ken''\<rparr>"

definition approval_request1 :: request where
  "approval_request1 =
     \<lparr>endpoint = Api_async_approval, oidc_user = Some bob,
      req_body = approval_body ''delete_project'' ''project:alpha-release'' ''cleanup''\<rparr>"

definition fresh_system :: "fga_store system" where
  "fresh_system = \<lparr>fgaPermissions = Map.empty, server = initial_state plan_store\<rparr>"

text \<open>Alice's browser after its page load, and the same after Alice has granted herself
  \<open>editor\<close> on the project plan.\<close>

definition loaded_system :: "fga_store system" where
  "loaded_system = page_load store_services env0 (Some alice) fresh_system"

definition granted_system :: "fga_store system" where
  "granted_system = snd (post store_services env0 grant_request loaded_system)"

section \<open>Unfolding the model\<close>

lemmas handler_defs =
  check_access_def grant_access_def async_approval_def tokens_def profile_def
  simulateTokenVaultExchange_def generateToken_def generateRequestId_def console_add_def

lemmas store_defs =
  store_services_def plan_store_def alice_def bob_def env0_def env1_def initial_state_def
  check_body_def grant_body_def approval_body_def

section \<open>What the mock table allows\<close>

lemma permission_key_colon: "CHR '':'' \<in> set (permission_key res rel)"
  by (simp add: permission_key_def)

text \<open>
  No property inherited from \<^verbatim>\<open>Object.prototype\<close> has a colon in its name, and every
  key has one: the lookup never leaves the four own properties.
\<close>

lemma permission_key_not_inherited: "map_of object_prototype (permission_key res rel) = None"
proof -
  have "\<forall>k \<in> fst ` set object_prototype. CHR '':'' \<notin> set k"
    by (simp add: object_prototype_def)
  with permission_key_colon [of res rel]
  have "permission_key res rel \<notin> fst ` set object_prototype"
    by blast
  then show ?thesis by (simp add: map_of_eq_None_iff)
qed

lemma mock_own_lookup:
  "map_of mockPermissions k =
     (if k \<in> fst ` set mockPermissions then Some (JBool True) else None)"
  by (simp add: mockPermissions_def)

lemma mock_allowed_by_key:
  "mock_allowed res rel = JBool (permission_key res rel \<in> fst ` set mockPermissions)"
  by (simp add: mock_allowed_def js_get_def js_or_def mock_own_lookup
        permission_key_not_inherited)

text \<open>
  The keys of the table against its pairs. A key is split into resource and relation at
  its last colon as long as the relation name has none, which holds for every relation
  name of the configuration (\<^verbatim>\<open>FGA_CONFIG.relations\<close>); for those the pairs the table
  lists are exactly the four of \<open>listed_pairs\<close>.
\<close>

lemma split_last_colon:
  assumes "xs @ c # ys = xs' @ c # ys'" "c \<notin> set ys" "c \<notin> set ys'"
  shows "xs = xs' \<and> ys = ys'"
proof -
  from assms(1) obtain us where
    "(xs = xs' @ us \<and> us @ c # ys = c # ys') \<or> (xs @ us = xs' \<and> c # ys = us @ c # ys')"
    by (auto simp: append_eq_append_conv2)
  then show ?thesis
  proof
    assume a: "xs = xs' @ us \<and> us @ c # ys = c # ys'"
    show ?thesis
    proof (cases us)
      case Nil
      with a show ?thesis by simp
    next
      case (Cons u us')
      with a have "ys' = us' @ c # ys" by simp
      with assms(3) show ?thesis by simp
    qed
  next
    assume a: "xs @ us = xs' \<and> c # ys = us @ c # ys'"
    show ?thesis
    proof (cases us)
      case Nil
      with a show ?thesis by simp
    next
      case (Cons u us')
      with a have "ys = us' @ c # ys'" by simp
      with assms(2) show ?thesis by simp
    qed
  qed
qed

lemma permission_key_eq:
  assumes "CHR '':'' \<notin> set rel" "CHR '':'' \<notin> set rel'"
  shows "(permission_key res rel = permission_key res' rel') = (res = res' \<and> rel = rel')"
  using assms split_last_colon [of res "CHR '':''" rel res' rel']
  by (auto simp: permission_key_def)

lemma mock_keys_image:
  "fst ` set mockPermissions = (\<lambda>(r, l). permission_key r l) ` set listed_pairs"
  by (simp add: mockPermissions_def permission_key_def listed_pairs_def)

lemma listed_pairs_colon_free: "(r, l) \<in> set listed_pairs \<Longrightarrow> CHR '':'' \<notin> set l"
  by (auto simp: listed_pairs_def)

lemma mock_keys_are_listed_pairs:
  assumes "CHR '':'' \<notin> set rel"
  shows "(permission_key res rel \<in> fst ` set mockPermissions) = ((res, rel) \<in> set listed_pairs)"
proof
  assume "permission_key res rel \<in> fst ` set mockPermissions"
  then obtain r l where rl: "(r, l) \<in> set listed_pairs" "permission_key res rel = permission_key r l"
    unfolding mock_keys_image by auto
  with permission_key_eq [OF assms listed_pairs_colon_free [OF rl(1)]]
  show "(res, rel) \<in> set listed_pairs" by simp
next
  assume "(res, rel) \<in> set listed_pairs"
  then show "permission_key res rel \<in> fst ` set mockPermissions"
    unfolding mock_keys_image by force
qed

text \<open>
  C1, as the code has it. Without an FGA client the check handler of \<^verbatim>\<open>part_006\<close>
  answers from \<open>mockPermissions\<close>, and \<open>allowed\<close> is \<open>true\<close> exactly when the key
  \<^verbatim>\<open>`${resource}:${relation}`\<close> is a key of the table: every key that is not gets
  \<open>false\<close>. In particular every pair that is not one of the four listed gets \<open>false\<close>,
  provided its relation name has no colon.
\<close>

theorem mock_table_default_deny:
  "check_access None u b st =
     (Check_json (JBool (permission_key (resource b) (relation b) \<in> fst ` set mockPermissions))
        (resource b) (relation b), st)
   \<and> (CHR '':'' \<notin> set (relation b) \<and> (resource b, relation b) \<notin> set listed_pairs \<longrightarrow>
        check_access None u b st = (Check_json (JBool False) (resource b) (relation b), st))"
  by (simp add: check_access_def mock_allowed_by_key mock_keys_are_listed_pairs)

theorem mock_table_default_deny_witness:
  "CHR '':'' \<notin> set ''editor''
   \<and> (''document:project-plan'', ''editor'') \<notin> set listed_pairs
   \<and> check_access None alice (check_body ''document:project-plan'' ''editor'')
       (initial_state plan_store)
     = (Check_json (JBool False) ''document:project-plan'' ''editor'', initial_state plan_store)"
proof -
  have h: "CHR '':'' \<notin> set (relation (check_body ''document:project-plan'' ''editor''))
           \<and> (resource (check_body ''document:project-plan'' ''editor''),
               relation (check_body ''document:project-plan'' ''editor'')) \<notin> set listed_pairs"
    by (simp add: check_body_def listed_pairs_def)
  from mock_table_default_deny
         [of alice "check_body ''document:project-plan'' ''editor''" "initial_state plan_store"] h
  have "check_access None alice (check_body ''document:project-plan'' ''editor'')
          (initial_state plan_store)
        = (Check_json (JBool False)
             (resource (check_body ''document:project-plan'' ''editor''))
             (relation (check_body ''document:project-plan'' ''editor'')),
           initial_state plan_store)"
    by blast
  with h show ?thesis by (simp add: check_body_def)
qed

text \<open>
  C1 as stated fails: the resource \<open>document\<close> with the relation \<open>project-plan:viewer\<close>
  is none of the four listed pairs, and the table allows it, because the two compose
  the listed key \<open>document:project-plan:viewer\<close>.
\<close>

theorem unlisted_pair_allowed_counterexample:
  "(''document'', ''project-plan:viewer'') \<notin> set listed_pairs
   \<and> check_access None alice (check_body ''document'' ''project-plan:viewer'')
       (initial_state plan_store)
     = (Check_json (JBool True) ''document'' ''project-plan:viewer'', initial_state plan_store)"
  by (simp add: listed_pairs_def check_access_def check_body_def mock_allowed_def js_get_def
        js_or_def permission_key_def mockPermissions_def)

section \<open>A failing remote check\<close>

text \<open>
  C2, as the code has it. With a client configured the check handlers of \<^verbatim>\<open>server.js\<close>
  and \<^verbatim>\<open>part_006\<close> never read the mock table: a remote call that fails, for whatever
  reason, is answered with status 500 and the fixed text \<^verbatim>\<open>Failed to check access\<close>, the
  thrown error goes to the console and to nobody else, and a remote call that succeeds
  is answered with the service's own answer. The mock table answers only when there is
  no client.
\<close>

theorem check_access_remote_failure:
  "check_access None u b st =
     (Check_json (mock_allowed (resource b) (relation b)) (resource b) (relation b), st)
   \<and> (fga_check c (''user:'' @ sub u, relation b, resource b) (world st) = (Inl e, w) \<longrightarrow>
        check_access (Some c) u b st =
          (Error_json 500 ''Failed to check access'',
           st\<lparr>world := w,
              console := console st @ [Console_error ''Error checking FGA access:'' e]\<rparr>))
   \<and> (fga_check c (''user:'' @ sub u, relation b, resource b) (world st) = (Inr a, w) \<longrightarrow>
        check_access (Some c) u b st =
          (Check_json (JBool a) (resource b) (relation b), st\<lparr>world := w\<rparr>))"
  by (simp add: check_access_def console_add_def)

theorem check_access_remote_failure_witness:
  "check_access (Some store_services) alice (check_body ''document:project-plan'' ''viewer'')
     (initial_state (plan_store\<lparr>reachable := False\<rparr>))
   = (Error_json 500 ''Failed to check access'',
      \<lparr>world = plan_store\<lparr>reachable := False,
           calls := [Check_call (''user:alice'', ''viewer'', ''document:project-plan'')]\<rparr>,
       console = [Console_error ''Error checking FGA access:'' RemoteUnavailable],
       timers = []\<rparr>)
   \<and> check_access (Some store_services) alice (check_body ''document:project-plan'' ''editor'')
       (initial_state plan_store)
   = (Check_json (JBool False) ''document:project-plan'' ''editor'',
      \<lparr>world = plan_store\<lparr>calls :=
           [Check_call (''user:alice'', ''editor'', ''document:project-plan'')]\<rparr>,
       console = [], timers = []\<rparr>)"
proof -
  have h1: "fga_check store_services
              (''user:'' @ sub alice, relation (check_body ''document:project-plan'' ''viewer''),
               resource (check_body ''document:project-plan'' ''viewer''))
              (world (initial_state (plan_store\<lparr>reachable := False\<rparr>)))
            = (Inl RemoteUnavailable,
               plan_store\<lparr>reachable := False,
                 calls := [Check_call (''user:alice'', ''viewer'', ''document:project-plan'')]\<rparr>)"
    by (simp add: store_defs)
  have h2: "fga_check store_services
              (''user:'' @ sub alice, relation (check_body ''document:project-plan'' ''editor''),
               resource (check_body ''document:project-plan'' ''editor''))
              (world (initial_state plan_store))
            = (Inr False,
               plan_store\<lparr>calls :=
                 [Check_call (''user:alice'', ''editor'', ''document:project-plan'')]\<rparr>)"
    by (simp add: store_defs)
  from check_access_remote_failure
         [where u = alice and b = "check_body ''document:project-plan'' ''viewer''"
            and st = "initial_state (plan_store\<lparr>reachable := False\<rparr>)"
            and c = store_services and e = RemoteUnavailable
            and w = "plan_store\<lparr>reachable := False,
               calls := [Check_call (''user:alice'', ''viewer'', ''document:project-plan'')]\<rparr>"]
       check_access_remote_failure
         [where u = alice and b = "check_body ''document:project-plan'' ''editor''"
            and st = "initial_state plan_store" and c = store_services and a = False
            and w = "plan_store\<lparr>calls :=
               [Check_call (''user:alice'', ''editor'', ''document:project-plan'')]\<rparr>"]
       h1 h2
  show ?thesis
    by (simp add: store_defs)
qed

text \<open>
  C2 as stated fails: the service is unreachable, the table lists the pair asked for,
  and the caller gets the 500 reply, not a decision taken from the table.
\<close>

theorem check_unavailable_counterexample:
  "check_access (Some store_services) alice (check_body ''document:project-plan'' ''viewer'')
     (initial_state (plan_store\<lparr>reachable := False\<rparr>))
   = (Error_json 500 ''Failed to check access'',
      \<lparr>world = plan_store\<lparr>reachable := False,
           calls := [Check_call (''user:alice'', ''viewer'', ''document:project-plan'')]\<rparr>,
       console = [Console_error ''Error checking FGA access:'' RemoteUnavailable],
       timers = []\<rparr>)
   \<and> mock_allowed ''document:project-plan'' ''viewer'' = JBool True"
  by (simp add: handler_defs store_defs mock_allowed_def js_get_def js_or_def
        permission_key_def mockPermissions_def)

section \<open>Grants\<close>



text \<open>
  C3, as the code has it. A grant that succeeds has made the owner check and the write
  on the service and nothing else: the map in the browser is as before, and a check
  handled after it is answered by a new call to the service, as every check is, since
  the server keeps no cache.
\<close>

theorem grant_touches_no_cache:
  assumes "post svc e \<lparr>endpoint = Api_fga_grant_access, oidc_user = Some u, req_body = b\<rparr> sys
           = (Grant_json True m, sys')"
  shows "fgaPermissions sys' = fgaPermissions sys
     \<and> world (server sys') =
         snd (fga_write svc (''user:'' @ targetUser b, relation b, resource b)
               (snd (fga_check svc (''user:'' @ sub u, ''owner'', resource b) (world (server sys)))))
     \<and> fst (check_access (Some svc) u' b' (server sys')) =
         (case fst (fga_check svc (''user:'' @ sub u', relation b', resource b')
                      (world (server sys'))) of
            Inr a \<Rightarrow> Check_json (JBool a) (resource b') (relation b')
          | Inl err \<Rightarrow> Error_json 500 ''Failed to check access'')"
  using assms
  by (auto simp: post_def route_def requireAuth_def grant_access_def check_access_def
        console_add_def split: prod.splits sum.splits if_splits)

theorem grant_touches_no_cache_witness:
  "fgaPermissions (snd (post store_services env0 grant_request fresh_system))
     = fgaPermissions fresh_system
   \<and> fst (check_access (Some store_services) alice
            (check_body ''document:project-plan'' ''editor'')
            (server (snd (post store_services env0 grant_request fresh_system))))
     = Check_json (JBool True) ''document:project-plan'' ''editor''"
proof -
  obtain sys' where s: "snd (post store_services env0 grant_request fresh_system) = sys'"
    by simp
  have "fst (post store_services env0 grant_request fresh_system)
          = Grant_json True ''Access granted: alice can now editor document:project-plan''"
    by (simp add: post_def grant_request_def fresh_system_def route_def requireAuth_def
          grant_access_def store_defs)
  with s have h: "post store_services env0
       \<lparr>endpoint = Api_fga_grant_access, oidc_user = Some alice,
        req_body = grant_body ''document:project-plan'' ''editor'' ''alice''\<rparr> fresh_system
     = (Grant_json True ''Access granted: alice can now editor document:project-plan'', sys')"
    by (simp add: grant_request_def prod_eq_iff)
  have w: "world (server fresh_system) = plan_store"
    by (simp add: fresh_system_def initial_state_def)
  from grant_touches_no_cache [OF h, of alice "check_body ''document:project-plan'' ''editor''"]
  show ?thesis
    unfolding s by (simp add: w store_defs)
qed

lemma loaded_system_cache:
  "fgaPermissions loaded_system =
     [''document:project-plan:viewer'' \<mapsto> JBool True,
      ''document:project-plan:owner'' \<mapsto> JBool True]"
  by (simp add: loaded_system_def fresh_system_def page_load_def loadUserPermissions_def
        server_fetch_def route_def requireAuth_def handler_defs store_defs resources_def
        relations_def permission_key_def)

lemma loaded_system_tuples:
  "tuples (world (server loaded_system)) = tuples plan_store
   \<and> reachable (world (server loaded_system))"
  by (simp add: loaded_system_def fresh_system_def page_load_def loadUserPermissions_def
        server_fetch_def route_def requireAuth_def handler_defs store_defs resources_def
        relations_def permission_key_def)

text \<open>
  C3 as stated fails. Alice's browser has loaded her permissions on the project plan
  (\<open>viewer\<close> and \<open>owner\<close>); she then grants herself \<open>editor\<close> and the grant succeeds. The
  entry for \<open>viewer\<close> on that resource is still in the map, and the next
  \<^verbatim>\<open>hasPermission\<close> for \<open>editor\<close> on it is answered from the map, with the answer
  from before the grant, while the service now says yes.
\<close>

theorem grant_keeps_cache_counterexample:
  "fst (post store_services env0 grant_request loaded_system)
     = Grant_json True ''Access granted: alice can now editor document:project-plan''
   \<and> fgaPermissions granted_system ''document:project-plan:viewer'' = Some (JBool True)
   \<and> hasPermission (fgaPermissions granted_system) ''document:project-plan'' ''editor''
     = JBool False
   \<and> fst (check_access (Some store_services) alice
            (check_body ''document:project-plan'' ''editor'') (server granted_system))
     = Check_json (JBool True) ''document:project-plan'' ''editor''"
proof -
  obtain w where w: "server loaded_system = w" by simp
  have t: "tuples (world w) = tuples plan_store" "reachable (world w)"
    using loaded_system_tuples w by simp_all
  have p: "post store_services env0 grant_request loaded_system =
     (Grant_json True ''Access granted: alice can now editor document:project-plan'',
      loaded_system\<lparr>server := w\<lparr>world := (world w)
         \<lparr>tuples := (''user:alice'', ''editor'', ''document:project-plan'') # tuples plan_store,
          calls := calls (world w) @
            [Check_call (''user:alice'', ''owner'', ''document:project-plan''),
             Write_call (''user:alice'', ''editor'', ''document:project-plan'')]\<rparr>\<rparr>\<rparr>)"
    using t w
    by (simp add: post_def grant_request_def route_def requireAuth_def grant_access_def
          store_services_def alice_def grant_body_def plan_store_def)
  show ?thesis
    unfolding granted_system_def p
    using t
    by (simp add: loaded_system_cache hasPermission_def permission_key_def check_access_def
          store_services_def alice_def check_body_def)
qed

section \<open>Repeated checks\<close>

text \<open>
  C8, as the code has it. The check handler has no cache and no time-to-live: a second
  call asks the service again, whatever the first was told. If the service gives the
  same answer again, both calls send the same reply (an answer or the 500 error);
  without a client both are read from the mock table and nothing changes. In the
  browser, \<^verbatim>\<open>hasPermission\<close> answers from the map and from nothing else, whatever the
  server has been through since and however late it is: no entry expires.
\<close>

theorem repeated_check_asks_again:
  "(fst (fga_check c (''user:'' @ sub u, relation b, resource b)
           (snd (fga_check c (''user:'' @ sub u, relation b, resource b) (world st))))
      = fst (fga_check c (''user:'' @ sub u, relation b, resource b) (world st)) \<longrightarrow>
    fst (check_access (Some c) u b (snd (check_access (Some c) u b st)))
      = fst (check_access (Some c) u b st))
   \<and> world (snd (check_access (Some c) u b (snd (check_access (Some c) u b st))))
       = snd (fga_check c (''user:'' @ sub u, relation b, resource b)
               (snd (fga_check c (''user:'' @ sub u, relation b, resource b) (world st))))
   \<and> check_access None u b (snd (check_access None u b st)) = check_access None u b st
   \<and> hasPermission (fgaPermissions (elapse svc evs sys)) res rel
       = (case fgaPermissions sys (permission_key res rel) of
            None \<Rightarrow> JBool False
          | Some v \<Rightarrow> v)"
  by (auto simp: check_access_def console_add_def elapse_def hasPermission_def
        split: prod.splits sum.splits)

theorem repeated_check_asks_again_witness:
  "fst (check_access (Some store_services) alice (check_body ''document:project-plan'' ''viewer'')
          (snd (check_access (Some store_services) alice
                  (check_body ''document:project-plan'' ''viewer'') (initial_state plan_store))))
   = fst (check_access (Some store_services) alice
            (check_body ''document:project-plan'' ''viewer'') (initial_state plan_store))
   \<and> hasPermission
        (fgaPermissions (elapse store_services [Http env0 grant_request, Clock 86400000]
                           loaded_system))
        ''document:project-plan'' ''editor'' = JBool False"
proof -
  have h: "fst (fga_check store_services
                  (''user:'' @ sub alice,
                   relation (check_body ''document:project-plan'' ''viewer''),
                   resource (check_body ''document:project-plan'' ''viewer''))
                  (snd (fga_check store_services
                          (''user:'' @ sub alice,
                           relation (check_body ''document:project-plan'' ''viewer''),
                           resource (check_body ''document:project-plan'' ''viewer''))
                          (world (initial_state plan_store)))))
           = fst (fga_check store_services
                    (''user:'' @ sub alice,
                     relation (check_body ''document:project-plan'' ''viewer''),
                     resource (check_body ''document:project-plan'' ''viewer''))
                    (world (initial_state plan_store)))"
    by (simp add: store_defs)
  from repeated_check_asks_again
         [where c = store_services and u = alice
            and b = "check_body ''document:project-plan'' ''viewer''"
            and st = "initial_state plan_store" and svc = store_services
            and evs = "[Http env0 grant_request, Clock 86400000]" and sys = loaded_system
            and res = "''document:project-plan''" and rel = "''editor''"] h
  show ?thesis
    by (simp add: loaded_system_cache permission_key_def)
qed

text \<open>
  C8 as stated fails: the second of two identical checks in a row reaches the service
  like the first (two calls are on record), and its reply has no source to tell.
\<close>

theorem second_check_not_cached_counterexample:
  "check_access (Some store_services) alice (check_body ''document:project-plan'' ''viewer'')
     (snd (check_access (Some store_services) alice
             (check_body ''document:project-plan'' ''viewer'') (initial_state plan_store)))
   = (Check_json (JBool True) ''document:project-plan'' ''viewer'',
      \<lparr>world = plan_store\<lparr>calls :=
          [Check_call (''user:alice'', ''viewer'', ''document:project-plan''),
           Check_call (''user:alice'', ''viewer'', ''document:project-plan'')]\<rparr>,
       console = [], timers = []\<rparr>)"
  by (simp add: handler_defs store_defs)

section \<open>Approval requests\<close>

text \<open>
  C7. For a request that carries a user, the approval route replies at once, without a
  call to any service: the reply has the generated id and the status \<open>pending\<close>, the
  request object is built with status \<open>pending\<close> and logged, and one callback holding it
  is queued for 5000 ms later.
\<close>

theorem async_approval_pending:
  "route svc e \<lparr>endpoint = Api_async_approval, oidc_user = Some u, req_body = b\<rparr> st =
     (Approval_json (''req_'' @ random_id e) ''pending''
        ''Approval request submitted. You will be notified when approved.'',
      st\<lparr>console := console st @
            [Console_log_request ''Approval request created:''
               \<lparr>rq_id = ''req_'' @ random_id e, rq_user_id = sub u, rq_user_name = name u,
                rq_action = action b, rq_resource = resource b,
                rq_justification = justification b, rq_status = ''pending'',
                rq_created_at = now e\<rparr>],
         timers := timers st @
            [(now e + 5000,
               \<lparr>rq_id = ''req_'' @ random_id e, rq_user_id = sub u, rq_user_name = name u,
                rq_action = action b, rq_resource = resource b,
                rq_justification = justification b, rq_status = ''pending'',
                rq_created_at = now e\<rparr>)]\<rparr>)"
  by (simp add: route_def requireAuth_def handler_defs Let_def)

theorem async_approval_pending_witness:
  "route store_services env0 approval_request0 (initial_state plan_store) =
     (Approval_json ''req_k3x9q2m1z'' ''pending''
        ''Approval request submitted. You will be notified when approved.'',
      \<lparr>world = plan_store,
       console =
         [Console_log_request ''Approval request created:''
            \<lparr>rq_id = ''req_k3x9q2m1z'', rq_user_id = ''alice'', rq_user_name = ''Alice'',
             rq_action = ''access_document'', rq_resource = ''document:sensitive'',
             rq_justification = ''review'', rq_status = ''pending'', rq_created_at = 0\<rparr>],
       timers =
         [(5000,
            \<lparr>rq_id = ''req_k3x9q2m1z'', rq_user_id = ''alice'', rq_user_name = ''Alice'',
             rq_action = ''access_document'', rq_resource = ''document:sensitive'',
             rq_justification = ''review'', rq_status = ''pending'', rq_created_at = 0\<rparr>)]\<rparr>)"
  using async_approval_pending [of store_services env0 alice
          "approval_body ''access_document'' ''document:sensitive'' ''review''"
          "initial_state plan_store"]
  by (simp add: approval_request0_def store_defs)

lemma run_due_world: "world (run_due t ts st) = world st"
  by (induction ts arbitrary: st) (auto simp: simulateApprovalDecision_def console_add_def)

lemma run_due_timers: "timers (run_due t ts st) = timers st"
  by (induction ts arbitrary: st) (auto simp: simulateApprovalDecision_def console_add_def)

lemma run_due_console:
  "console (run_due t ts st) = console st @
     map (\<lambda>(due, rq). Console_log (''Approval request '' @ rq_id rq
            @ '' has been auto-approved for demo purposes''))
       (filter (\<lambda>(due, rq). due \<le> t) ts)"
  by (induction ts arbitrary: st) (auto simp: simulateApprovalDecision_def console_add_def)

text \<open>
  C5, as the code has it. When the clock reaches \<open>t\<close>, each callback due by then writes
  the console line that its request \<^verbatim>\<open>has been auto-approved for demo purposes\<close> and
  leaves the queue; the callbacks not yet due stay, and nothing else changes. No status
  is set: not to \<open>expired\<close>, and not to \<open>approved\<close> either.
\<close>

theorem timer_only_logs:
  "world (timers_fire t st) = world st
   \<and> timers (timers_fire t st) = filter (\<lambda>(due, rq). \<not> due \<le> t) (timers st)
   \<and> console (timers_fire t st) = console st @
       map (\<lambda>(due, rq). Console_log (''Approval request '' @ rq_id rq
              @ '' has been auto-approved for demo purposes''))
         (filter (\<lambda>(due, rq). due \<le> t) (timers st))"
  by (simp add: timers_fire_def run_due_world run_due_console)

theorem timer_only_logs_witness:
  "timers (timers_fire 4999 (snd (route store_services env0 approval_request0
                                     (initial_state plan_store))))
     = timers (snd (route store_services env0 approval_request0 (initial_state plan_store)))
   \<and> timers (timers_fire 5000 (snd (route store_services env0 approval_request0
                                       (initial_state plan_store)))) = []"
  using timer_only_logs [of 4999 "snd (route store_services env0 approval_request0
                                          (initial_state plan_store))"]
        timer_only_logs [of 5000 "snd (route store_services env0 approval_request0
                                          (initial_state plan_store))"]
  by (simp add: approval_request0_def route_def requireAuth_def handler_defs store_defs Let_def)

text \<open>
  C5 as stated fails: a request is created at time 0 and left alone; at 5000 ms its
  callback runs. What the server then holds is the console line saying the request was
  auto-approved; the request object was built with status \<open>pending\<close> and no state
  with status \<open>expired\<close> exists.
\<close>

theorem timer_auto_approves_counterexample:
  "run store_services [Http env0 approval_request0, Clock 5000] (initial_state plan_store)
   = \<lparr>world = plan_store,
      console =
        [Console_log_request ''Approval request created:''
           \<lparr>rq_id = ''req_k3x9q2m1z'', rq_user_id = ''alice'', rq_user_name = ''Alice'',
            rq_action = ''access_document'', rq_resource = ''document:sensitive'',
            rq_justification = ''review'', rq_status = ''pending'', rq_created_at = 0\<rparr>,
         Console_log ''Approval request req_k3x9q2m1z has been auto-approved for demo purposes''],
      timers = []\<rparr>"
  by (simp add: approval_request0_def route_def requireAuth_def handler_defs store_defs
        timers_fire_def simulateApprovalDecision_def Let_def)

lemma route_timers:
  "timers (snd (route svc e req st)) = timers st
   \<or> (\<exists>rq. rq_status rq = ''pending''
         \<and> timers (snd (route svc e req st)) = timers st @ [(now e + 5000, rq)])"
  by (cases "endpoint req")
     (auto simp: route_def requireAuth_def handler_defs Let_def
        split: option.splits prod.splits sum.splits)

lemma step_held_pending: "held_pending st \<Longrightarrow> held_pending (step svc ev st)"
proof (cases ev)
  case (Http e req)
  assume "held_pending st"
  with route_timers [of svc e req st] Http show ?thesis
    by (auto simp: held_pending_def)
next
  case (Clock t)
  assume "held_pending st"
  with Clock show ?thesis
    by (auto simp: held_pending_def timers_fire_def list_all_iff)
next
  case (Http_unparseable development message)
  assume "held_pending st"
  with Http_unparseable show ?thesis
    by (simp add: held_pending_def error_middleware_def console_add_def)
qed

lemma run_held_pending: "held_pending st \<Longrightarrow> held_pending (run svc evs st)"
  by (induction evs arbitrary: st) (auto simp: step_held_pending)

text \<open>
  C4, as the code has it. The server has no operation that resolves a request and no
  store of requests. Whatever requests arrive and whenever the clock ticks, every
  request object the server holds has status \<open>pending\<close>; and what
  \<^verbatim>\<open>simulateApprovalDecision\<close>, the one function that is given a request id after
  creation, does to the state is to add its console line: it records no outcome.
\<close>

theorem no_outcome_recorded:
  "held_pending (run svc evs (initial_state w))
   \<and> simulateApprovalDecision requestId st =
       st\<lparr>console := console st @
            [Console_log (''Approval request '' @ requestId
               @ '' has been auto-approved for demo purposes'')]\<rparr>"
proof -
  have "held_pending (initial_state w)"
    by (simp add: held_pending_def initial_state_def)
  then have "held_pending (run svc evs (initial_state w))"
    by (rule run_held_pending)
  then show ?thesis
    by (simp add: simulateApprovalDecision_def console_add_def)
qed

theorem no_outcome_recorded_witness:
  "held_pending (run store_services [Http env0 approval_request0] (initial_state plan_store))
   \<and> length (timers (run store_services [Http env0 approval_request0]
                        (initial_state plan_store))) = 1"
  using no_outcome_recorded [of store_services "[Http env0 approval_request0]" plan_store
          "''req_k3x9q2m1z''" "initial_state plan_store"]
  by (simp add: approval_request0_def route_def requireAuth_def handler_defs store_defs Let_def)

text \<open>
  C4 as stated fails. Bob's request is created at time 100; the server then holds it
  with status \<open>pending\<close>. At 5100 its callback takes the decision. After this first and
  only resolution no outcome is on record: the server holds no request and no status,
  only the two console lines, and nothing is left that a later resolution of the same
  id, or of an unknown one, could be refused against.
\<close>

theorem resolution_not_recorded_counterexample:
  "map (\<lambda>(due, rq). (due, rq_id rq, rq_status rq))
     (timers (run store_services [Http env1 approval_request1] (initial_state plan_store)))
     = [(5100, ''req_p7w2c5d8r'', ''pending'')]
   \<and> run store_services [Http env1 approval_request1, Clock 5100] (initial_state plan_store)
     = \<lparr>world = plan_store,
        console =
          [Console_log_request ''Approval request created:''
             \<lparr>rq_id = ''req_p7w2c5d8r'', rq_user_id = ''bob'', rq_user_name = ''Bob'',
              rq_action = ''delete_project'', rq_resource = ''project:alpha-release'',
              rq_justification = ''cleanup'', rq_status = ''pending'', rq_created_at = 100\<rparr>,
           Console_log ''Approval request req_p7w2c5d8r has been auto-approved for demo purposes''],
        timers = []\<rparr>"
  by (simp add: approval_request1_def route_def requireAuth_def handler_defs store_defs
        timers_fire_def simulateApprovalDecision_def Let_def)

section \<open>The permission map of the browser\<close>






section \<open>Requests without a session\<close>

text \<open>
  C10, as the code has it. In \<^verbatim>\<open>server.js\<close> every \<^verbatim>\<open>/api\<close> route (profile, the two token
  routes, check, grant, approval) stands behind \<^verbatim>\<open>requireAuth\<close>: a request without a
  session user whose body parses is answered 401 \<^verbatim>\<open>Authentication required\<close> and the
  state is untouched: no call to a service, no console line, no callback queued. A
  request whose body does not parse never gets as far: the error middleware answers
  500 \<^verbatim>\<open>Internal server error\<close> and writes its console line, again with no call to a
  service and no callback queued.
\<close>

theorem unauthenticated_rejected:
  "http_session hreq = None \<Longrightarrow>
   app svc development e hreq st =
     (case http_body hreq of
        Parsed b \<Rightarrow> (Error_json 401 ''Authentication required'', st)
      | Unparseable message \<Rightarrow>
          (Internal_error_json (if development then message else ''Something went wrong''),
           st\<lparr>console := console st @ [Console_error ''Application error:'' BodyParserError]\<rparr>))"
  by (simp add: app_def route_def requireAuth_def error_middleware_def console_add_def
        split: raw_body.splits)

theorem unauthenticated_rejected_witness:
  "app store_services False env0
     \<lparr>http_endpoint = Api_async_approval, http_session = None,
      http_body = Parsed (approval_body ''access_document'' ''document:sensitive'' ''review'')\<rparr>
     (initial_state plan_store)
   = (Error_json 401 ''Authentication required'', initial_state plan_store)"
  using unauthenticated_rejected
          [of "\<lparr>http_endpoint = Api_async_approval, http_session = None,
                http_body = Parsed (approval_body ''access_document'' ''document:sensitive''
                                      ''review'')\<rparr>"
              store_services False env0 "initial_state plan_store"]
  by simp

text \<open>
  C10 as stated fails: a request to the approval route with no session and a body that
  is not JSON is answered 500, not 401, and leaves a line on the console.
\<close>

theorem unparseable_body_counterexample:
  "app store_services False env0
     \<lparr>http_endpoint = Api_async_approval, http_session = None,
      http_body = Unparseable ''Unexpected end of JSON input''\<rparr>
     (initial_state plan_store)
   = (Internal_error_json ''Something went wrong'',
      \<lparr>world = plan_store,
       console = [Console_error ''Application error:'' BodyParserError],
       timers = []\<rparr>)"
  by (simp add: app_def error_middleware_def console_add_def initial_state_def)

end
